theory Spec2Isabelle
  imports Complex_Main "HOL-Library.Multiset"
begin

section \<open>Numbers\<close>

text \<open>
  The analyzer computes with JavaScript numbers. They are modelled as exact rationals:
  comparison, sorting, \<open>Math.ceil\<close> and \<open>Math.round\<close> are exact on them, and the
  rounding error of binary floating point in sums and quotients is outside the model.
\<close>

type_synonym number = rat

text \<open>
  Reading \<open>xs[i]\<close> in JavaScript gives \<open>undefined\<close> when \<open>i\<close> is not an index of the
  array (negative, or at least the length).
\<close>

definition at_index :: "'a list \<Rightarrow> int \<Rightarrow> 'a option" where
  "at_index xs i = (if 0 \<le> i \<and> i < int (length xs) then Some (xs ! nat i) else None)"

text \<open>\<open>v || 0\<close> for a number or \<open>undefined\<close>: the falsy values (\<open>undefined\<close>, \<open>0\<close>) give \<open>0\<close>.\<close>

definition or_zero :: "number option \<Rightarrow> number" where
  "or_zero v = (case v of None \<Rightarrow> 0 | Some x \<Rightarrow> if x = 0 then 0 else x)"

section \<open>Percentile calculator\<close>

text \<open>
  \<^verbatim>\<open>
  calculatePercentile(values, percentile) {
    const sorted = values.slice().sort((a, b) => a - b);
    const index = Math.ceil((percentile / 100) * sorted.length) - 1;
    return sorted[index] || 0;
  }
  \<close>
\<close>

definition percentile_index :: "nat \<Rightarrow> number \<Rightarrow> int" where
  "percentile_index n p = \<lceil>(p / 100) * of_nat n\<rceil> - 1"

definition calculatePercentile :: "number list \<Rightarrow> number \<Rightarrow> number" where
  "calculatePercentile values p =
     (let sorted = sort values;
          index = percentile_index (length sorted) p
      in or_zero (at_index sorted index))"


section \<open>Text and regular expressions\<close>

text \<open>
  Log text is a \<open>string\<close>; each \<open>char\<close> stands for one code unit of the JavaScript
  string, in the 8-bit range. The character classes are those of the regular
  expressions in the source:
  \<open>\d\<close>, \<open>\s\<close> (tab, line feed, vertical tab, form feed, carriage return, space,
  no-break space) and \<open>\w\<close> (for \<open>\b\<close>).
\<close>

definition is_digit :: "char \<Rightarrow> bool" where
  "is_digit c = (c \<in> set ''0123456789'')"

definition is_space :: "char \<Rightarrow> bool" where
  "is_space c = ((of_char c :: nat) \<in> set [9, 10, 11, 12, 13, 32, 160])"

definition is_word :: "char \<Rightarrow> bool" where
  "is_word c =
     (c \<in> set ''abcdefghijklmnopqrstuvwxyzABCDEFGHIJKLMNOPQRSTUVWXYZ0123456789_'')"

text \<open>
  With the flag \<open>i\<close> two characters match when they canonicalize to the same
  character. The patterns of the source are ASCII, and a character outside ASCII never
  canonicalizes to an ASCII one, so upper-casing the ASCII letters is all that matters.
\<close>

definition canonicalize :: "char \<Rightarrow> char" where
  "canonicalize c =
     (case map_of (zip ''abcdefghijklmnopqrstuvwxyz'' ''ABCDEFGHIJKLMNOPQRSTUVWXYZ'') c of
        None \<Rightarrow> c
      | Some u \<Rightarrow> u)"

datatype cls = CSet "char list" | Digit | Space | Union cls cls

datatype regex =
    Empty
  | Atom cls
  | Seq regex regex
  | Alt regex regex
  | Opt regex
  | Star cls
  | Plus cls
  | Group regex
  | WordBoundary

record regexp =
  source :: regex
  ignoreCase :: bool

fun in_cls :: "bool \<Rightarrow> cls \<Rightarrow> char \<Rightarrow> bool" where
  "in_cls ic (CSet cs) x =
     (if ic then canonicalize x \<in> set (map canonicalize cs) else x \<in> set cs)"
| "in_cls ic Digit x = is_digit x"
| "in_cls ic Space x = is_space x"
| "in_cls ic (Union a b) x = (in_cls ic a x \<or> in_cls ic b x)"

text \<open>
  The state of a match: the character before the current position (for \<open>\b\<close>), the
  input still to be read, and the text of capture group 1 once it has closed. The
  matcher returns the states after every way of matching, in the order a backtracking
  engine tries them (greedy quantifiers take the longest run first), so the head of the
  list is the match JavaScript reports.
\<close>

type_synonym mstate = "char option \<times> string \<times> string option"

fun greedy :: "bool \<Rightarrow> cls \<Rightarrow> mstate \<Rightarrow> mstate list" where
  "greedy ic c (p, [], k) = [(p, [], k)]"
| "greedy ic c (p, x # xs, k) =
     (if in_cls ic c x then greedy ic c (Some x, xs, k) else []) @ [(p, x # xs, k)]"

definition word_before :: "char option \<Rightarrow> bool" where
  "word_before p = (case p of None \<Rightarrow> False | Some c \<Rightarrow> is_word c)"

definition word_after :: "string \<Rightarrow> bool" where
  "word_after r = (case r of [] \<Rightarrow> False | c # _ \<Rightarrow> is_word c)"

fun exec :: "bool \<Rightarrow> regex \<Rightarrow> mstate \<Rightarrow> mstate list" where
  "exec ic Empty st = [st]"
| "exec ic (Atom c) (p, r, k) =
     (case r of [] \<Rightarrow> [] | x # xs \<Rightarrow> if in_cls ic c x then [(Some x, xs, k)] else [])"
| "exec ic (Seq a b) st = concat (map (exec ic b) (exec ic a st))"
| "exec ic (Alt a b) st = exec ic a st @ exec ic b st"
| "exec ic (Opt a) st = exec ic a st @ [st]"
| "exec ic (Star c) st = greedy ic c st"
| "exec ic (Plus c) (p, r, k) =
     (case r of [] \<Rightarrow> [] | x # xs \<Rightarrow> if in_cls ic c x then greedy ic c (Some x, xs, k) else [])"
| "exec ic (Group a) (p, r, k) =
     map (\<lambda>(p', r', _). (p', r', Some (take (length r - length r') r))) (exec ic a (p, r, k))"
| "exec ic WordBoundary (p, r, k) =
     (if word_before p \<noteq> word_after r then [(p, r, k)] else [])"

text \<open>A regular expression without the flags \<open>g\<close> and \<open>y\<close> is tried at every start
  position, from the left.\<close>

fun search :: "bool \<Rightarrow> regex \<Rightarrow> char option \<Rightarrow> string \<Rightarrow> mstate option" where
  "search ic r p [] = (case exec ic r (p, [], None) of [] \<Rightarrow> None | st # _ \<Rightarrow> Some st)"
| "search ic r p (x # xs) =
     (case exec ic r (p, x # xs, None) of
        [] \<Rightarrow> search ic r (Some x) xs
      | st # _ \<Rightarrow> Some st)"

text \<open>\<open>pattern.test(s)\<close>.\<close>

definition test :: "regexp \<Rightarrow> string \<Rightarrow> bool" where
  "test re s = (search (ignoreCase re) (source re) None s \<noteq> None)"

text \<open>
  \<open>s.match(pattern)\<close>, read at index 1: \<open>None\<close> when the result is \<open>null\<close>, else the
  text of capture group 1 (a group that took no part in the match reads as
  \<open>undefined\<close>; every pattern below has its group on the only path).
\<close>

definition str_match :: "regexp \<Rightarrow> string \<Rightarrow> string option" where
  "str_match re s =
     (case search (ignoreCase re) (source re) None s of
        None \<Rightarrow> None
      | Some (_, _, k) \<Rightarrow> Some (case k of None \<Rightarrow> ''undefined'' | Some g \<Rightarrow> g))"

text \<open>\<open>array.some(f)\<close>: stops at the first element that satisfies \<open>f\<close>.\<close>

fun some :: "('a \<Rightarrow> bool) \<Rightarrow> 'a list \<Rightarrow> bool" where
  "some f [] = False"
| "some f (x # xs) = (if f x then True else some f xs)"

text \<open>Building blocks for writing the patterns of the source.\<close>

fun seqs :: "regex list \<Rightarrow> regex" where
  "seqs [] = Empty"
| "seqs [r] = r"
| "seqs (r # rs) = Seq r (seqs rs)"

definition lit :: "string \<Rightarrow> regex" where
  "lit s = seqs (map (\<lambda>c. Atom (CSet [c])) s)"

definition digits :: "nat \<Rightarrow> regex" where
  "digits n = seqs (replicate n (Atom Digit))"

section \<open>Configuration\<close>

text \<open>
  The fields of \<open>config\<close> that the analysis and the alert service read. The numeric
  thresholds come from \<open>parseInt\<close> and \<open>parseFloat\<close> of the environment, with a
  default behind \<open>||\<close>.
\<close>

record config =
  errorPatterns :: "regexp list"
  maxErrors :: int
  maxAvgResponseTime :: int
  maxP95ResponseTime :: int
  maxMemoryPercent :: number
  snsTopicArn :: "string option"
  alertCooldown :: int

definition regexp_i :: "regex \<Rightarrow> regexp" where
  "regexp_i r = \<lparr>source = r, ignoreCase = True\<rparr>"

definition regexp_plain :: "regex \<Rightarrow> regexp" where
  "regexp_plain r = \<lparr>source = r, ignoreCase = False\<rparr>"

text \<open>
  \<^verbatim>\<open>
  errorPatterns: [ /ERROR/i, /FATAL/i, /Exception/i, /Error:/i, /failed/i, /timeout/i,
    /500\s+Internal/i, /502\s+Bad\s+Gateway/i, /503\s+Service\s+Unavailable/i,
    /504\s+Gateway\s+Timeout/i ]
  \<close>
\<close>

definition default_errorPatterns :: "regexp list" where
  "default_errorPatterns =
     [regexp_i (lit ''ERROR''),
      regexp_i (lit ''FATAL''),
      regexp_i (lit ''Exception''),
      regexp_i (lit ''Error:''),
      regexp_i (lit ''failed''),
      regexp_i (lit ''timeout''),
      regexp_i (seqs [lit ''500'', Plus Space, lit ''Internal'']),
      regexp_i (seqs [lit ''502'', Plus Space, lit ''Bad'', Plus Space, lit ''Gateway'']),
      regexp_i (seqs [lit ''503'', Plus Space, lit ''Service'', Plus Space, lit ''Unavailable'']),
      regexp_i (seqs [lit ''504'', Plus Space, lit ''Gateway'', Plus Space, lit ''Timeout''])]"

text \<open>The configuration when the environment sets none of the variables.\<close>

definition default_config :: config where
  "default_config =
     \<lparr>errorPatterns = default_errorPatterns,
      maxErrors = 10,
      maxAvgResponseTime = 5000,
      maxP95ResponseTime = 10000,
      maxMemoryPercent = 85,
      snsTopicArn = None,
      alertCooldown = 30\<rparr>"

text \<open>\<open>config.errorPatterns.some(pattern => pattern.test(message))\<close>\<close>

definition isError :: "config \<Rightarrow> string \<Rightarrow> bool" where
  "isError cfg message = some (\<lambda>pattern. test pattern message) (errorPatterns cfg)"

section \<open>Metric extractor\<close>

record metricAccumulator =
  totalEvents :: "nat option"
  totalLines :: "nat option"
  errorCount :: nat
  responseTimes :: "number list option"
  memoryUsage :: "number list option"
  statusCodes :: "(string \<rightharpoonup> nat) option"

definition digit_val :: "char \<Rightarrow> nat" where
  "digit_val c = of_char c - 48"

definition digits_val :: "string \<Rightarrow> nat" where
  "digits_val ds = foldl (\<lambda>a c. 10 * a + digit_val c) 0 ds"

text \<open>
  \<open>parseFloat\<close> on the text of a capture group \<open>(\d+(?:\.\d+)?)\<close>: decimal digits,
  then possibly a point and a fraction.
\<close>

definition parseFloat :: "string \<Rightarrow> number" where
  "parseFloat s =
     (let ip = takeWhile is_digit s
      in case dropWhile is_digit s of
           c # fs \<Rightarrow>
             if c = CHR ''.''
             then (let fp = takeWhile is_digit fs
                   in of_nat (digits_val ip) + of_nat (digits_val fp) / 10 ^ length fp)
             else of_nat (digits_val ip)
         | [] \<Rightarrow> of_nat (digits_val ip))"

text \<open>\<open>/(?:duration|time|elapsed)[:\s]+(\d+(?:\.\d+)?)\s*(?:ms|milliseconds)/i\<close>\<close>

definition number_group :: regex where
  "number_group = Group (Seq (Plus Digit) (Opt (Seq (lit ''.'') (Plus Digit))))"

definition responseTimePattern :: regexp where
  "responseTimePattern =
     regexp_i (seqs [Alt (lit ''duration'') (Alt (lit ''time'') (lit ''elapsed'')),
               Plus (Union (CSet '':'') Space),
               number_group,
               Star Space,
               Alt (lit ''ms'') (lit ''milliseconds'')])"

text \<open>\<open>/memory[:\s]+(\d+(?:\.\d+)?)\s*(?:mb|gb|%)/i\<close>\<close>

definition memoryPattern :: regexp where
  "memoryPattern =
     regexp_i (seqs [lit ''memory'',
               Plus (Union (CSet '':'') Space),
               number_group,
               Star Space,
               Alt (lit ''mb'') (Alt (lit ''gb'') (lit ''%''))])"

text \<open>\<open>/\b([1-5]\d{2})\b/\<close>\<close>

definition statusPattern :: regexp where
  "statusPattern =
     regexp_plain (seqs [WordBoundary, Group (Seq (Atom (CSet ''12345'')) (digits 2)), WordBoundary])"

definition push :: "'a list option \<Rightarrow> 'a \<Rightarrow> 'a list option" where
  "push xs v = Some ((case xs of None \<Rightarrow> [] | Some ys \<Rightarrow> ys) @ [v])"

definition tally :: "(string \<rightharpoonup> nat) option \<Rightarrow> string \<Rightarrow> (string \<rightharpoonup> nat) option" where
  "tally codes status =
     (let m = (case codes of None \<Rightarrow> Map.empty | Some m \<Rightarrow> m)
      in Some (m(status \<mapsto> (case m status of None \<Rightarrow> 0 | Some n \<Rightarrow> n) + 1)))"

definition extractMetrics :: "string \<Rightarrow> metricAccumulator \<Rightarrow> metricAccumulator" where
  "extractMetrics message m0 =
     (let m1 = (case str_match responseTimePattern message of
                  None \<Rightarrow> m0
                | Some g \<Rightarrow> m0\<lparr>responseTimes := push (responseTimes m0) (parseFloat g)\<rparr>);
          m2 = (case str_match memoryPattern message of
                  None \<Rightarrow> m1
                | Some g \<Rightarrow> m1\<lparr>memoryUsage := push (memoryUsage m1) (parseFloat g)\<rparr>);
          m3 = (case str_match statusPattern message of
                  None \<Rightarrow> m2
                | Some status \<Rightarrow> m2\<lparr>statusCodes := tally (statusCodes m2) status\<rparr>)
      in m3)"

section \<open>Dates\<close>

text \<open>
  A \<open>Date\<close> holds a time value, milliseconds since the epoch, or \<open>NaN\<close> (an invalid
  date, here \<open>None\<close>). \<open>toISOString\<close> throws a \<open>RangeError\<close> on an invalid date; on a
  valid one its text is fixed by the time value, and the model keeps that value.
\<close>

datatype error = RangeError | TransportError string

datatype instant = ISO int

definition date_of_number :: "int \<Rightarrow> int option" where
  "date_of_number t = (if \<bar>t\<bar> \<le> 8640000000000000 then Some t else None)"

definition toISOString :: "int option \<Rightarrow> error + instant" where
  "toISOString d = (case d of None \<Rightarrow> Inl RangeError | Some t \<Rightarrow> Inr (ISO t))"

text \<open>
  What the program takes from the JavaScript runtime and does not define itself:
  \<open>new Date(text)\<close> (its time value) and the rendering of a number of magnitude at
  least \<open>10^21\<close>, which \<open>toFixed\<close> delegates to \<open>ToString\<close>.
\<close>

record runtime =
  dateParse :: "string \<Rightarrow> int option"
  numberToString :: "number \<Rightarrow> string"

text \<open>
  A reference runtime, to run the program on concrete lines. Its \<open>new Date(text)\<close>
  reads the three shapes the timestamp patterns capture, takes the local time zone to
  be UTC, and gives an invalid date when a field is out of range (month 1 to 12, day 1
  to 31, hour 0 to 23 or 24:00:00, minute and second 0 to 59) or the text has another
  shape. Statements about every runtime do not depend on it.
\<close>

definition days_from_civil :: "int \<Rightarrow> int \<Rightarrow> int \<Rightarrow> int" where
  "days_from_civil y m d =
     (let y' = (if m \<le> 2 then y - 1 else y);
          era = y' div 400;
          yoe = y' - era * 400;
          doy = (153 * (if m > 2 then m - 3 else m + 9) + 2) div 5 + d - 1;
          doe = yoe * 365 + yoe div 4 - yoe div 100 + doy
      in era * 146097 + doe - 719468)"

definition make_time :: "int \<Rightarrow> int \<Rightarrow> int \<Rightarrow> int \<Rightarrow> int \<Rightarrow> int \<Rightarrow> int \<Rightarrow> int option" where
  "make_time y mo d h mi se ms =
     (if 1 \<le> mo \<and> mo \<le> 12 \<and> 1 \<le> d \<and> d \<le> 31
         \<and> (h \<le> 23 \<or> (h = 24 \<and> mi = 0 \<and> se = 0 \<and> ms = 0))
         \<and> mi \<le> 59 \<and> se \<le> 59
      then Some ((days_from_civil y mo 1 + d - 1) * 86400000
                 + h * 3600000 + mi * 60000 + se * 1000 + ms)
      else None)"

fun digit_runs :: "string \<Rightarrow> string \<Rightarrow> string list" where
  "digit_runs cur [] = (if cur = [] then [] else [cur])"
| "digit_runs cur (c # rest) =
     (if is_digit c then digit_runs (cur @ [c]) rest
      else (if cur = [] then [] else [cur]) @ digit_runs [] rest)"

definition zone_offset :: "string \<Rightarrow> int option" where
  "zone_offset z =
     (case z of
        [] \<Rightarrow> Some 0
      | c # hhmm \<Rightarrow>
          if c = CHR ''Z'' then Some 0
          else (let zh = int (digits_val (take 2 hhmm));
                    zm = int (digits_val (take 2 (drop 3 hhmm)))
                in if zh \<le> 23 \<and> zm \<le> 59
                   then Some ((if c = CHR ''-'' then - 1 else 1) * (zh * 60 + zm))
                   else None))"

definition reference_dateParse :: "string \<Rightarrow> int option" where
  "reference_dateParse s =
     (let fs = map (\<lambda>ds. int (digits_val ds)) (digit_runs [] s)
      in if take 1 (drop 4 s) = ''-'' then
           (case fs of
              y # mo # d # h # mi # se # _ \<Rightarrow>
                (let tail = drop 19 s;
                     frac = (take 1 tail = ''.'');
                     ms = (if frac then int (digits_val (take 3 (drop 1 tail))) else 0);
                     zone = (if frac then drop 4 tail else tail)
                 in case (make_time y mo d h mi se ms, zone_offset zone) of
                      (Some t, Some off) \<Rightarrow> date_of_number (t - off * 60000)
                    | _ \<Rightarrow> None)
            | _ \<Rightarrow> None)
         else if take 1 (drop 2 s) = ''/'' then
           (case fs of
              [mo, d, y, h, mi, se] \<Rightarrow> make_time y mo d h mi se 0
            | _ \<Rightarrow> None)
         else if take 1 (drop 4 s) = ''/'' then
           (case fs of
              [y, mo, d, h, mi, se] \<Rightarrow> make_time y mo d h mi se 0
            | _ \<Rightarrow> None)
         else None)"

text \<open>The decimal digits of a natural number.\<close>

function show_nat :: "nat \<Rightarrow> string" where
  "show_nat n =
     (if n < 10 then [''0123456789'' ! n]
      else show_nat (n div 10) @ [''0123456789'' ! (n mod 10)])"
  by pat_completeness auto
termination
  by (relation "measure id") auto

declare show_nat.simps [simp del]

text \<open>
  Its rendering of a number of magnitude at least \<open>10^21\<close> is the exponent form of the
  integer part: the first digit, the other digits up to the last non-zero one after a
  point, and the exponent, as in \<open>1e+21\<close> and \<open>1.5e+21\<close>.
\<close>

definition exponent_form :: "number \<Rightarrow> string" where
  "exponent_form x =
     (let ds = show_nat (nat \<lfloor>\<bar>x\<bar>\<rfloor>);
          mantissa = rev (dropWhile (\<lambda>c. c = CHR ''0'') (rev (tl ds)))
      in (if x < 0 then ''-'' else []) @ take 1 ds
         @ (if mantissa = [] then [] else ''.'' @ mantissa)
         @ ''e+'' @ show_nat (length ds - 1))"

definition reference_runtime :: runtime where
  "reference_runtime = \<lparr>dateParse = reference_dateParse, numberToString = exponent_form\<rparr>"

section \<open>Timestamp extractor\<close>

text \<open>
  \<^verbatim>\<open>
  const patterns = [
    /(\d{4}-\d{2}-\d{2}[T\s]\d{2}:\d{2}:\d{2}(?:\.\d{3})?(?:Z|[+-]\d{2}:\d{2})?)/,
    /(\d{2}\/\d{2}\/\d{4}\s+\d{2}:\d{2}:\d{2})/,
    /(\d{4}\/\d{2}\/\d{2}\s+\d{2}:\d{2}:\d{2})/
  ];
  for (const pattern of patterns) {
    const match = line.match(pattern);
    if (match) { return new Date(match[1]).toISOString(); }
  }
  return null;
  \<close>
\<close>

definition clock_time :: regex where
  "clock_time = seqs [digits 2, lit '':'', digits 2, lit '':'', digits 2]"

definition timestampPatterns :: "regexp list" where
  "timestampPatterns =
     [regexp_plain (Group (seqs
        [digits 4, lit ''-'', digits 2, lit ''-'', digits 2,
         Atom (Union (CSet ''T'') Space),
         clock_time,
         Opt (Seq (lit ''.'') (digits 3)),
         Opt (Alt (lit ''Z'') (seqs [Atom (CSet ''+-''), digits 2, lit '':'', digits 2]))])),
      regexp_plain (Group (seqs
        [digits 2, lit ''/'', digits 2, lit ''/'', digits 4, Plus Space, clock_time])),
      regexp_plain (Group (seqs
        [digits 4, lit ''/'', digits 2, lit ''/'', digits 2, Plus Space, clock_time]))]"

fun extractTimestamp_loop :: "runtime \<Rightarrow> regexp list \<Rightarrow> string \<Rightarrow> error + instant option" where
  "extractTimestamp_loop rt [] line = Inr None"
| "extractTimestamp_loop rt (pattern # patterns) line =
     (case str_match pattern line of
        Some m \<Rightarrow>
          (case toISOString (dateParse rt m) of
             Inl e \<Rightarrow> Inl e
           | Inr stamp \<Rightarrow> Inr (Some stamp))
      | None \<Rightarrow> extractTimestamp_loop rt patterns line)"

definition extractTimestamp :: "runtime \<Rightarrow> string \<Rightarrow> error + instant option" where
  "extractTimestamp rt line = extractTimestamp_loop rt timestampPatterns line"

section \<open>Threshold evaluator\<close>

datatype jsvalue = Num number | Str string

record violation =
  v_metric :: string
  v_value :: jsvalue
  v_threshold :: number
  v_comparison :: string
  v_unit :: "string option"
  v_source :: string

text \<open>\<open>Math.round\<close>: the nearest integer, a tie going up.\<close>

definition math_round :: "number \<Rightarrow> number" where
  "math_round x = of_int \<lfloor>x + 1 / 2\<rfloor>"

text \<open>
  \<open>Number.prototype.toFixed\<close>: the sign; then, below \<open>10^21\<close>, the integer \<open>n\<close> with
  \<open>n / 10^f\<close> nearest to the value (the larger one on a tie), written in decimal, padded
  with zeros to at least \<open>f + 1\<close> digits, with a point before the last \<open>f\<close>.
\<close>

definition toFixed :: "runtime \<Rightarrow> nat \<Rightarrow> number \<Rightarrow> string" where
  "toFixed rt f x0 =
     (let s = (if x0 < 0 then ''-'' else []);
          x = \<bar>x0\<bar>
      in if x \<ge> 10 ^ 21 then s @ numberToString rt x
         else (let n = nat \<lfloor>x * 10 ^ f + 1 / 2\<rfloor>;
                   m = show_nat n;
                   m' = (if f \<noteq> 0
                         then (let z = (if length m \<le> f
                                        then replicate (f + 1 - length m) CHR ''0'' @ m
                                        else m);
                                   k = length z
                               in take (k - f) z @ ''.'' @ drop (k - f) z)
                         else m)
               in s @ m'))"

text \<open>\<open>xs.reduce((a, b) => a + b) / xs.length\<close>\<close>

definition average :: "number list \<Rightarrow> number" where
  "average xs = sum_list xs / of_nat (length xs)"

text \<open>\<open>n > 0\<close> for a counter that may be \<open>undefined\<close>.\<close>

definition positive :: "nat option \<Rightarrow> bool" where
  "positive n = (case n of None \<Rightarrow> False | Some k \<Rightarrow> k > 0)"

definition errorCountCheck :: "config \<Rightarrow> metricAccumulator \<Rightarrow> string \<Rightarrow> violation list" where
  "errorCountCheck cfg m src =
     (if positive (totalEvents m) \<or> positive (totalLines m)
      then (if int (errorCount m) > maxErrors cfg
            then [\<lparr>v_metric = ''Error Count'',
                   v_value = Num (of_nat (errorCount m)),
                   v_threshold = of_int (maxErrors cfg),
                   v_comparison = ''exceeds'',
                   v_unit = None,
                   v_source = src\<rparr>]
            else [])
      else [])"

definition responseTimeCheck :: "config \<Rightarrow> metricAccumulator \<Rightarrow> string \<Rightarrow> violation list" where
  "responseTimeCheck cfg m src =
     (case responseTimes m of
        None \<Rightarrow> []
      | Some rts \<Rightarrow>
          if length rts > 0
          then (let avgResponseTime = average rts;
                    p95ResponseTime = calculatePercentile rts 95
                in (if avgResponseTime > of_int (maxAvgResponseTime cfg)
                    then [\<lparr>v_metric = ''Average Response Time'',
                           v_value = Num (math_round avgResponseTime),
                           v_threshold = of_int (maxAvgResponseTime cfg),
                           v_comparison = ''exceeds'',
                           v_unit = Some ''ms'',
                           v_source = src\<rparr>]
                    else [])
                   @ (if p95ResponseTime > of_int (maxP95ResponseTime cfg)
                      then [\<lparr>v_metric = ''P95 Response Time'',
                             v_value = Num (math_round p95ResponseTime),
                             v_threshold = of_int (maxP95ResponseTime cfg),
                             v_comparison = ''exceeds'',
                             v_unit = Some ''ms'',
                             v_source = src\<rparr>]
                      else []))
          else [])"

definition memoryCheck :: "config \<Rightarrow> runtime \<Rightarrow> metricAccumulator \<Rightarrow> string \<Rightarrow> violation list" where
  "memoryCheck cfg rt m src =
     (case memoryUsage m of
        None \<Rightarrow> []
      | Some mem \<Rightarrow>
          if length mem > 0
          then (let avgMemory = average mem
                in if avgMemory > maxMemoryPercent cfg
                   then [\<lparr>v_metric = ''Memory Usage'',
                          v_value = Str (toFixed rt 1 avgMemory),
                          v_threshold = maxMemoryPercent cfg,
                          v_comparison = ''exceeds'',
                          v_unit = Some ''%'',
                          v_source = src\<rparr>]
                   else [])
          else [])"

definition checkThresholds :: "config \<Rightarrow> runtime \<Rightarrow> metricAccumulator \<Rightarrow> string \<Rightarrow> violation list" where
  "checkThresholds cfg rt m src =
     errorCountCheck cfg m src @ responseTimeCheck cfg m src @ memoryCheck cfg rt m src"

section \<open>Batch analyzer\<close>

record logEvent =
  ev_timestamp :: int
  ev_message :: string

record classifiedError =
  err_timestamp :: instant
  err_logGroup :: "string option"
  err_message :: string
  err_source :: string

record results =
  errors :: "classifiedError list"
  metrics :: metricAccumulator
  violations :: "violation list"

text \<open>\<open>s.substring(0, n)\<close>\<close>

definition substring0 :: "nat \<Rightarrow> string \<Rightarrow> string" where
  "substring0 n s = take n s"

text \<open>
  The body of \<open>events.forEach\<close> in \<open>processLogEvents\<close>. The timestamp is converted
  for every event, before the event is classified, and \<open>toISOString\<close> throws on a time
  value that is not a valid date.
\<close>

fun processLogEvents_loop :: "config \<Rightarrow> string \<Rightarrow> logEvent list \<Rightarrow> results \<Rightarrow> error + results" where
  "processLogEvents_loop cfg logGroup [] res = Inr res"
| "processLogEvents_loop cfg logGroup (event # events) res =
     (let message = ev_message event
      in case toISOString (date_of_number (ev_timestamp event)) of
           Inl e \<Rightarrow> Inl e
         | Inr timestamp \<Rightarrow>
             (let res1 = (if isError cfg message
                          then res\<lparr>errors := errors res @
                                     [\<lparr>err_timestamp = timestamp,
                                       err_logGroup = Some logGroup,
                                       err_message = substring0 500 message,
                                       err_source = ''cloudwatch''\<rparr>],
                                   metrics := (metrics res)
                                     \<lparr>errorCount := errorCount (metrics res) + 1\<rparr>\<rparr>
                          else res);
                  res2 = res1\<lparr>metrics := extractMetrics message (metrics res1)\<rparr>
              in processLogEvents_loop cfg logGroup events res2))"

definition processLogEvents :: "config \<Rightarrow> runtime \<Rightarrow> logEvent list \<Rightarrow> string \<Rightarrow> error + results" where
  "processLogEvents cfg rt events logGroup =
     (let results0 =
            \<lparr>errors = [],
             metrics = \<lparr>totalEvents = Some (length events),
                        totalLines = None,
                        errorCount = 0,
                        responseTimes = Some [],
                        memoryUsage = Some [],
                        statusCodes = None\<rparr>,
             violations = []\<rparr>
      in case processLogEvents_loop cfg logGroup events results0 of
           Inl e \<Rightarrow> Inl e
         | Inr res \<Rightarrow>
             Inr (res\<lparr>violations := violations res @ checkThresholds cfg rt (metrics res) logGroup\<rparr>))"

text \<open>
  The body of \<open>lines.forEach\<close> in \<open>processLogLines\<close>; \<open>now\<close> is the wall clock that
  \<open>new Date()\<close> reads when a line carries no timestamp.
\<close>

fun processLogLines_loop :: "config \<Rightarrow> runtime \<Rightarrow> int \<Rightarrow> string \<Rightarrow> string list \<Rightarrow> results \<Rightarrow> error + results" where
  "processLogLines_loop cfg rt now src [] res = Inr res"
| "processLogLines_loop cfg rt now src (line # lines) res =
     (let step = (if isError cfg line
                  then (case extractTimestamp rt line of
                          Inl e \<Rightarrow> Inl e
                        | Inr found \<Rightarrow>
                            Inr (res\<lparr>errors := errors res @
                                       [\<lparr>err_timestamp = (case found of
                                                            Some stamp \<Rightarrow> stamp
                                                          | None \<Rightarrow> ISO now),
                                         err_logGroup = None,
                                         err_message = substring0 500 line,
                                         err_source = src\<rparr>],
                                     metrics := (metrics res)
                                       \<lparr>errorCount := errorCount (metrics res) + 1\<rparr>\<rparr>))
                  else Inr res)
      in case step of
           Inl e \<Rightarrow> Inl e
         | Inr res1 \<Rightarrow>
             processLogLines_loop cfg rt now src lines
               (res1\<lparr>metrics := extractMetrics line (metrics res1)\<rparr>))"

definition processLogLines :: "config \<Rightarrow> runtime \<Rightarrow> int \<Rightarrow> string list \<Rightarrow> string \<Rightarrow> error + results" where
  "processLogLines cfg rt now lines src =
     (let results0 =
            \<lparr>errors = [],
             metrics = \<lparr>totalEvents = None,
                        totalLines = Some (length lines),
                        errorCount = 0,
                        responseTimes = Some [],
                        memoryUsage = None,
                        statusCodes = Some Map.empty\<rparr>,
             violations = []\<rparr>
      in case processLogLines_loop cfg rt now src lines results0 of
           Inl e \<Rightarrow> Inl e
         | Inr res \<Rightarrow>
             Inr (res\<lparr>violations := violations res @ checkThresholds cfg rt (metrics res) src\<rparr>))"

section \<open>Alert service\<close>

text \<open>
  \<open>lastAlertTimes\<close> is the \<open>Map\<close> of the service; \<open>now\<close> is what \<open>Date.now()\<close>
  returns at the call. \<open>!lastAlertTime\<close> holds for \<open>undefined\<close> and for \<open>0\<close>.
\<close>

type_synonym lastAlertTimes = "string \<rightharpoonup> int"

definition cooldownMs :: "config \<Rightarrow> int" where
  "cooldownMs cfg = alertCooldown cfg * 60 * 1000"

definition isInCooldown :: "config \<Rightarrow> int \<Rightarrow> lastAlertTimes \<Rightarrow> string \<Rightarrow> bool" where
  "isInCooldown cfg now st alertType =
     (case st alertType of
        None \<Rightarrow> False
      | Some lastAlertTime \<Rightarrow>
          if lastAlertTime = 0 then False
          else now - lastAlertTime < cooldownMs cfg)"

definition recordAlert :: "int \<Rightarrow> lastAlertTimes \<Rightarrow> string \<Rightarrow> lastAlertTimes" where
  "recordAlert now st alertType = st(alertType \<mapsto> now)"

text \<open>
  The two transports are parameters: what \<open>snsClient.send\<close> and \<open>sesClient.send\<close>
  do with a message, a rejected promise being \<open>Inl\<close>.
\<close>

record alertData =
  subject :: string
  textMessage :: string
  htmlMessage :: string

record transports =
  snsSend :: "string \<Rightarrow> string \<Rightarrow> error + string"
  sesSend :: "string \<Rightarrow> string \<Rightarrow> string \<Rightarrow> error + string"

definition tagged :: "string \<Rightarrow> string \<Rightarrow> string" where
  "tagged severity subj = ''['' @ severity @ ''] '' @ subj"

definition sendSNSAlert :: "config \<Rightarrow> transports \<Rightarrow> string \<Rightarrow> string \<Rightarrow> string \<Rightarrow> error + string option" where
  "sendSNSAlert cfg tr subj message severity =
     (if snsTopicArn cfg = None \<or> snsTopicArn cfg = Some [] then Inr None
      else (case snsSend tr (tagged severity subj) message of
              Inl e \<Rightarrow> Inl e
            | Inr result \<Rightarrow> Inr (Some result)))"

definition sendEmailAlert :: "transports \<Rightarrow> string \<Rightarrow> string \<Rightarrow> string \<Rightarrow> string \<Rightarrow> error + string" where
  "sendEmailAlert tr subj htmlBody textBody severity =
     (case sesSend tr (tagged severity subj) htmlBody textBody of
        Inl e \<Rightarrow> Inl e
      | Inr result \<Rightarrow> Inr result)"

text \<open>
  \<^verbatim>\<open>
  async sendAlert(alertData, alertType, severity = 'WARNING') {
    if (this.isInCooldown(alertType)) { ...; return; }
    try {
      const { subject, textMessage, htmlMessage } = alertData;
      await this.sendSNSAlert(subject, textMessage, severity);
      await this.sendEmailAlert(subject, htmlMessage, textMessage, severity);
      this.recordAlert(alertType);
    } catch (error) { ...; throw error; }
  }
  \<close>
  \<open>tCheck\<close> and \<open>tRecord\<close> are the readings of \<open>Date.now()\<close> in \<open>isInCooldown\<close> and in
  \<open>recordAlert\<close>. The result is the outcome for the caller and the new map.
\<close>

definition sendAlert :: "config \<Rightarrow> transports \<Rightarrow> int \<Rightarrow> int \<Rightarrow> lastAlertTimes \<Rightarrow> alertData \<Rightarrow> string \<Rightarrow> string \<Rightarrow> (error + unit) \<times> lastAlertTimes" where
  "sendAlert cfg tr tCheck tRecord st alert alertType severity =
     (if isInCooldown cfg tCheck st alertType then (Inr (), st)
      else (case sendSNSAlert cfg tr (subject alert) (textMessage alert) severity of
              Inl e \<Rightarrow> (Inl e, st)
            | Inr _ \<Rightarrow>
                (case sendEmailAlert tr (subject alert) (htmlMessage alert) (textMessage alert) severity of
                   Inl e \<Rightarrow> (Inl e, st)
                 | Inr _ \<Rightarrow> (Inr (), recordAlert tRecord st alertType))))"

text \<open>
  The map of a fresh service after a sequence of \<open>recordAlert\<close> calls, each given as
  the category and the clock reading of the call, oldest first.
\<close>

definition after_alerts :: "(string \<times> int) list \<Rightarrow> lastAlertTimes" where
  "after_alerts calls = foldl (\<lambda>st (alertType, now). recordAlert now st alertType) Map.empty calls"

text \<open>The clock reading of the most recent \<open>recordAlert\<close> for a category, if any.\<close>

definition last_recorded :: "(string \<times> int) list \<Rightarrow> string \<Rightarrow> int option" where
  "last_recorded calls alertType =
     (let hits = filter (\<lambda>(c, t). c = alertType) calls
      in if hits = [] then None else Some (snd (last hits)))"


text \<open>
  For stating where and how a pattern matches: the character before a position, given
  the text before it, and a match state with every character canonicalized.
\<close>

definition char_before :: "string \<Rightarrow> char option" where
  "char_before before = (if before = [] then None else Some (last before))"


section \<open>Properties of the percentile calculator\<close>

























section \<open>Properties of the timestamp extractor\<close>

text \<open>
  The loop returns at the first pattern that matches: absent when none does, a
  \<open>RangeError\<close> when the matched text is not a valid date, the instant otherwise.
\<close>

lemma extractTimestamp_loop_first:
  "extractTimestamp_loop rt ps line =
     (case List.map_filter (\<lambda>p. str_match p line) ps of
        [] \<Rightarrow> Inr None
      | m # _ \<Rightarrow> (case dateParse rt m of None \<Rightarrow> Inl RangeError | Some t \<Rightarrow> Inr (Some (ISO t))))"
  by (induction ps) (auto simp: toISOString_def List.map_filter_simps split: option.splits sum.splits)

lemma malformed_line_matches:
  "List.map_filter (\<lambda>p. str_match p ''13/45/2023 99:99:99'') timestampPatterns
     = [''13/45/2023 99:99:99'']"
  by code_simp

lemma extractTimestamp_invalid_date:
  assumes "dateParse rt ''13/45/2023 99:99:99'' = None"
  shows "extractTimestamp rt ''13/45/2023 99:99:99'' = Inl RangeError"
  unfolding extractTimestamp_def extractTimestamp_loop_first malformed_line_matches
  using assms by simp

text \<open>
  Claim C1: for every line the extractor returns an instant or absent and never raises;
  in particular a line that matches a pattern with text that is not a valid date, such
  as \<open>13/45/2023 99:99:99\<close>, yields absent. The code does not do so: the line matches
  the second pattern, \<open>new Date\<close> of the match is an invalid date, and \<open>toISOString\<close>
  throws a \<open>RangeError\<close> that \<open>extractTimestamp\<close> does not catch.
\<close>

theorem extractTimestamp_raises_on_invalid_date:
  "extractTimestamp reference_runtime ''13/45/2023 99:99:99'' = Inl RangeError"
  by code_simp

section \<open>Properties of the threshold evaluator\<close>














section \<open>Properties of the batch analyzer\<close>

text \<open>
  Claim C8: for every source identifier, analyzing an empty record sequence raises
  nothing and returns no classified error, no violation, and metrics with every counter
  at zero and empty sample sequences.
\<close>

theorem empty_batch:
  "processLogEvents cfg rt [] logGroup =
     Inr \<lparr>errors = [],
          metrics = \<lparr>totalEvents = Some 0, totalLines = None, errorCount = 0,
                     responseTimes = Some [], memoryUsage = Some [], statusCodes = None\<rparr>,
          violations = []\<rparr>
   \<and> processLogLines cfg rt now [] src =
     Inr \<lparr>errors = [],
          metrics = \<lparr>totalEvents = None, totalLines = Some 0, errorCount = 0,
                     responseTimes = Some [], memoryUsage = None, statusCodes = Some Map.empty\<rparr>,
          violations = []\<rparr>"
  by (simp add: processLogEvents_def processLogLines_def checkThresholds_def
      errorCountCheck_def responseTimeCheck_def memoryCheck_def positive_def)


lemma processLogEvents_loop_errors:
  assumes "processLogEvents_loop cfg g events res = Inr res'"
  shows "\<exists>new. errors res' = errors res @ new
           \<and> (\<forall>e\<in>set new. \<exists>ev\<in>set events. err_message e = take 500 (ev_message ev))"
  using assms
proof (induction events arbitrary: res)
  case Nil
  then show ?case by simp
next
  case (Cons event events)
  from Cons.prems obtain ts where
    ts: "toISOString (date_of_number (ev_timestamp event)) = Inr ts"
    by (auto simp: Let_def split: sum.splits)
  let ?res1 = "if isError cfg (ev_message event)
               then res\<lparr>errors := errors res @
                          [\<lparr>err_timestamp = ts, err_logGroup = Some g,
                            err_message = substring0 500 (ev_message event),
                            err_source = ''cloudwatch''\<rparr>],
                        metrics := (metrics res)\<lparr>errorCount := errorCount (metrics res) + 1\<rparr>\<rparr>
               else res"
  let ?res2 = "?res1\<lparr>metrics := extractMetrics (ev_message event) (metrics ?res1)\<rparr>"
  have step: "processLogEvents_loop cfg g events ?res2 = Inr res'"
    using Cons.prems ts by (simp add: Let_def)
  from Cons.IH[OF step] obtain new where
    new: "errors res' = errors ?res2 @ new"
      "\<forall>e\<in>set new. \<exists>ev\<in>set events. err_message e = take 500 (ev_message ev)"
    by blast
  obtain added where
    added: "errors ?res2 = errors res @ added"
      "\<forall>e\<in>set added. err_message e = take 500 (ev_message event)"
    by (cases "isError cfg (ev_message event)") (simp_all add: substring0_def)
  have "errors res' = errors res @ (added @ new)" using new(1) added(1) by simp
  moreover have "\<forall>e\<in>set (added @ new). \<exists>ev\<in>set (event # events).
      err_message e = take 500 (ev_message ev)"
    using new(2) added(2) by auto
  ultimately show ?case by blast
qed

lemma processLogLines_loop_errors:
  assumes "processLogLines_loop cfg rt now src lines res = Inr res'"
  shows "\<exists>new. errors res' = errors res @ new
           \<and> (\<forall>e\<in>set new. \<exists>line\<in>set lines. err_message e = take 500 line)"
  using assms
proof (induction lines arbitrary: res)
  case Nil
  then show ?case by simp
next
  case (Cons line lines)
  obtain res1 where
    res1: "processLogLines_loop cfg rt now src lines
             (res1\<lparr>metrics := extractMetrics line (metrics res1)\<rparr>) = Inr res'"
    and added: "\<exists>added. errors res1 = errors res @ added
                  \<and> (\<forall>e\<in>set added. err_message e = take 500 line)"
  proof (cases "isError cfg line")
    case False
    with Cons.prems that[of res] show ?thesis by simp
  next
    case True
    from Cons.prems True obtain found where
      found: "extractTimestamp rt line = Inr found"
      by (auto simp: Let_def split: sum.splits)
    let ?res1 = "res\<lparr>errors := errors res @
                     [\<lparr>err_timestamp = (case found of Some stamp \<Rightarrow> stamp | None \<Rightarrow> ISO now),
                       err_logGroup = None,
                       err_message = substring0 500 line,
                       err_source = src\<rparr>],
                   metrics := (metrics res)\<lparr>errorCount := errorCount (metrics res) + 1\<rparr>\<rparr>"
    have "processLogLines_loop cfg rt now src lines
             (?res1\<lparr>metrics := extractMetrics line (metrics ?res1)\<rparr>) = Inr res'"
      using Cons.prems True found by simp
    moreover have "\<exists>added. errors ?res1 = errors res @ added
                  \<and> (\<forall>e\<in>set added. err_message e = take 500 line)"
      by (simp add: substring0_def)
    ultimately show ?thesis by (rule that)
  qed
  from Cons.IH[OF res1] obtain new where
    new: "errors res' = errors res1 @ new"
      "\<forall>e\<in>set new. \<exists>l\<in>set lines. err_message e = take 500 l"
    by auto
  from added obtain added' where
    added': "errors res1 = errors res @ added'"
      "\<forall>e\<in>set added'. err_message e = take 500 line"
    by blast
  have "errors res' = errors res @ (added' @ new)" using new(1) added'(1) by simp
  moreover have "\<forall>e\<in>set (added' @ new). \<exists>l\<in>set (line # lines). err_message e = take 500 l"
    using new(2) added'(2) by auto
  ultimately show ?case by blast
qed

lemma processLogEvents_errors:
  assumes "processLogEvents cfg rt events logGroup = Inr res"
  shows "\<forall>e\<in>set (errors res). \<exists>ev\<in>set events. err_message e = take 500 (ev_message ev)"
proof -
  from assms obtain r where
    r: "processLogEvents_loop cfg logGroup events
          \<lparr>errors = [],
           metrics = \<lparr>totalEvents = Some (length events), totalLines = None, errorCount = 0,
                      responseTimes = Some [], memoryUsage = Some [], statusCodes = None\<rparr>,
           violations = []\<rparr> = Inr r"
    and res: "res = r\<lparr>violations := violations r @ checkThresholds cfg rt (metrics r) logGroup\<rparr>"
    by (auto simp: processLogEvents_def split: sum.splits)
  from processLogEvents_loop_errors[OF r] show ?thesis by (simp add: res)
qed

lemma processLogLines_errors:
  assumes "processLogLines cfg rt now lines src = Inr res"
  shows "\<forall>e\<in>set (errors res). \<exists>line\<in>set lines. err_message e = take 500 line"
proof -
  from assms obtain r where
    r: "processLogLines_loop cfg rt now src lines
          \<lparr>errors = [],
           metrics = \<lparr>totalEvents = None, totalLines = Some (length lines), errorCount = 0,
                      responseTimes = Some [], memoryUsage = None, statusCodes = Some Map.empty\<rparr>,
           violations = []\<rparr> = Inr r"
    and res: "res = r\<lparr>violations := violations r @ checkThresholds cfg rt (metrics r) src\<rparr>"
    by (auto simp: processLogLines_def split: sum.splits)
  from processLogLines_loop_errors[OF r] show ?thesis by (simp add: res)
qed

text \<open>
  Claim C9: every classified error that batch analysis produces, from log events or
  from log lines, has a message of at most 500 characters, whatever the length of the
  original message: it is the first 500 characters of a message of the batch.
\<close>

theorem classifiedError_message_bounded:
  "(processLogEvents cfg rt events logGroup = Inr res \<longrightarrow>
      (\<forall>e\<in>set (errors res). length (err_message e) \<le> 500
          \<and> (\<exists>ev\<in>set events. err_message e = take 500 (ev_message ev))))
   \<and> (processLogLines cfg rt now lines src = Inr res' \<longrightarrow>
      (\<forall>e\<in>set (errors res'). length (err_message e) \<le> 500
          \<and> (\<exists>line\<in>set lines. err_message e = take 500 line)))"
proof -
  have a: "length (err_message e) \<le> 500 \<and> (\<exists>ev\<in>set events. err_message e = take 500 (ev_message ev))"
    if "processLogEvents cfg rt events logGroup = Inr res" "e \<in> set (errors res)" for e
  proof -
    from processLogEvents_errors[OF that(1)] that(2)
    obtain ev where ev: "ev \<in> set events" "err_message e = take 500 (ev_message ev)" by blast
    then show ?thesis by auto
  qed
  have b: "length (err_message e) \<le> 500 \<and> (\<exists>line\<in>set lines. err_message e = take 500 line)"
    if "processLogLines cfg rt now lines src = Inr res'" "e \<in> set (errors res')" for e
  proof -
    from processLogLines_errors[OF that(1)] that(2)
    obtain line where l: "line \<in> set lines" "err_message e = take 500 line" by blast
    then show ?thesis by auto
  qed
  show ?thesis using a b by blast
qed

theorem classifiedError_message_bounded_witness:
  "\<exists>res res'.
     processLogEvents default_config reference_runtime
       [\<lparr>ev_timestamp = 1701426600123,
         ev_message = ''ERROR: Database connection failed after 30s timeout''\<rparr>]
       ''test-log-group'' = Inr res
   \<and> processLogLines default_config reference_runtime 1701426600999
       [''2023-12-01T10:30:00.123Z [ERROR] Something went wrong''] ''logs/app.log'' = Inr res'
   \<and> length (errors res) = 1 \<and> length (errors res') = 1
   \<and> list_all (\<lambda>e. length (err_message e) \<le> 500) (errors res)
   \<and> list_all (\<lambda>e. length (err_message e) \<le> 500) (errors res')"
proof -
  have "case processLogEvents default_config reference_runtime
       [\<lparr>ev_timestamp = 1701426600123,
         ev_message = ''ERROR: Database connection failed after 30s timeout''\<rparr>]
       ''test-log-group'' of Inl e \<Rightarrow> False | Inr r \<Rightarrow> length (errors r) = 1"
    by code_simp
  then obtain res where
    r: "processLogEvents default_config reference_runtime
       [\<lparr>ev_timestamp = 1701426600123,
         ev_message = ''ERROR: Database connection failed after 30s timeout''\<rparr>]
       ''test-log-group'' = Inr res" and n: "length (errors res) = 1"
    by (auto split: sum.splits)
  have "case processLogLines default_config reference_runtime 1701426600999
       [''2023-12-01T10:30:00.123Z [ERROR] Something went wrong''] ''logs/app.log''
        of Inl e \<Rightarrow> False | Inr r \<Rightarrow> length (errors r) = 1"
    by code_simp
  then obtain res' where
    r': "processLogLines default_config reference_runtime 1701426600999
       [''2023-12-01T10:30:00.123Z [ERROR] Something went wrong''] ''logs/app.log'' = Inr res'"
    and n': "length (errors res') = 1"
    by (auto split: sum.splits)
  show ?thesis
    using classifiedError_message_bounded[of default_config reference_runtime
        "[\<lparr>ev_timestamp = 1701426600123,
           ev_message = ''ERROR: Database connection failed after 30s timeout''\<rparr>]"
        "''test-log-group''" res 1701426600999
        "[''2023-12-01T10:30:00.123Z [ERROR] Something went wrong'']" "''logs/app.log''" res']
      r r' n n'
    by (auto simp: list_all_iff)
qed

section \<open>Properties of the alert service\<close>

text \<open>
  Claim C5, as stated: when a transport call throws, the cooldown of the category has
  already been recorded, so the category is suppressed for the full window. In the code
  \<open>recordAlert\<close> comes after both transport calls: when the SNS call throws, the
  failure reaches the caller, nothing is recorded, and the category is not in cooldown.
\<close>

theorem sendAlert_failure_not_recorded:
  "fst (sendAlert (default_config\<lparr>snsTopicArn := Some ''arn:aws:sns:topic''\<rparr>)
         \<lparr>snsSend = (\<lambda>subj body. Inl (TransportError ''sns'')),
          sesSend = (\<lambda>subj html body. Inr ''email-id'')\<rparr>
         1000 1000 Map.empty
         \<lparr>subject = ''errors detected'', textMessage = ''summary'', htmlMessage = ''summary''\<rparr>
         ''error-alert'' ''WARNING'')
     = Inl (TransportError ''sns'')
   \<and> \<not> isInCooldown (default_config\<lparr>snsTopicArn := Some ''arn:aws:sns:topic''\<rparr>) 1000
        (snd (sendAlert (default_config\<lparr>snsTopicArn := Some ''arn:aws:sns:topic''\<rparr>)
           \<lparr>snsSend = (\<lambda>subj body. Inl (TransportError ''sns'')),
            sesSend = (\<lambda>subj html body. Inr ''email-id'')\<rparr>
           1000 1000 Map.empty
           \<lparr>subject = ''errors detected'', textMessage = ''summary'', htmlMessage = ''summary''\<rparr>
           ''error-alert'' ''WARNING''))
        ''error-alert''"
  by (simp add: sendAlert_def sendSNSAlert_def isInCooldown_def default_config_def)

text \<open>
  Claim C5, amended: when a transport call (SNS or email) throws, the failure is
  propagated to the caller and the cooldown map is left exactly as it was before the
  call; the alert time is recorded only after both transport calls have succeeded.
\<close>

theorem sendAlert_failure_leaves_cooldown:
  "(\<not> isInCooldown cfg tCheck st alertType
      \<and> sendSNSAlert cfg tr (subject alert) (textMessage alert) severity = Inl e \<longrightarrow>
        sendAlert cfg tr tCheck tRecord st alert alertType severity = (Inl e, st))
   \<and> (\<not> isInCooldown cfg tCheck st alertType
      \<and> sendSNSAlert cfg tr (subject alert) (textMessage alert) severity = Inr r
      \<and> sendEmailAlert tr (subject alert) (htmlMessage alert) (textMessage alert) severity = Inl e \<longrightarrow>
        sendAlert cfg tr tCheck tRecord st alert alertType severity = (Inl e, st))
   \<and> (fst (sendAlert cfg tr tCheck tRecord st alert alertType severity) = Inl e \<longrightarrow>
        snd (sendAlert cfg tr tCheck tRecord st alert alertType severity) = st)
   \<and> (\<not> isInCooldown cfg tCheck st alertType
      \<and> sendSNSAlert cfg tr (subject alert) (textMessage alert) severity = Inr r
      \<and> sendEmailAlert tr (subject alert) (htmlMessage alert) (textMessage alert) severity = Inr r' \<longrightarrow>
        sendAlert cfg tr tCheck tRecord st alert alertType severity
          = (Inr (), recordAlert tRecord st alertType))"
  by (auto simp: sendAlert_def split: sum.splits)

theorem sendAlert_failure_leaves_cooldown_witness:
  "\<not> isInCooldown (default_config\<lparr>snsTopicArn := Some ''arn:aws:sns:topic''\<rparr>) 1000
        Map.empty ''error-alert''
   \<and> sendSNSAlert (default_config\<lparr>snsTopicArn := Some ''arn:aws:sns:topic''\<rparr>)
         \<lparr>snsSend = (\<lambda>subj body. Inr ''message-id''),
          sesSend = (\<lambda>subj html body. Inl (TransportError ''ses''))\<rparr>
         ''errors detected'' ''summary'' ''WARNING'' = Inr (Some ''message-id'')
   \<and> sendEmailAlert
         \<lparr>snsSend = (\<lambda>subj body. Inr ''message-id''),
          sesSend = (\<lambda>subj html body. Inl (TransportError ''ses''))\<rparr>
         ''errors detected'' ''<p>summary</p>'' ''summary'' ''WARNING'' = Inl (TransportError ''ses'')
   \<and> sendAlert (default_config\<lparr>snsTopicArn := Some ''arn:aws:sns:topic''\<rparr>)
         \<lparr>snsSend = (\<lambda>subj body. Inr ''message-id''),
          sesSend = (\<lambda>subj html body. Inl (TransportError ''ses''))\<rparr>
         1000 1000 Map.empty
         \<lparr>subject = ''errors detected'', textMessage = ''summary'',
          htmlMessage = ''<p>summary</p>''\<rparr>
         ''error-alert'' ''WARNING''
       = (Inl (TransportError ''ses''), Map.empty)"
proof -
  let ?cfg = "default_config\<lparr>snsTopicArn := Some ''arn:aws:sns:topic''\<rparr>"
  let ?tr = "\<lparr>snsSend = (\<lambda>subj body. Inr ''message-id''),
              sesSend = (\<lambda>subj html body. Inl (TransportError ''ses''))\<rparr>"
  let ?alert = "\<lparr>subject = ''errors detected'', textMessage = ''summary'',
                 htmlMessage = ''<p>summary</p>''\<rparr>"
  have quiet: "\<not> isInCooldown ?cfg 1000 Map.empty ''error-alert''"
    by (simp add: isInCooldown_def)
  have sns: "sendSNSAlert ?cfg ?tr ''errors detected'' ''summary'' ''WARNING''
               = Inr (Some ''message-id'')"
    by (simp add: sendSNSAlert_def)
  have ses: "sendEmailAlert ?tr ''errors detected'' ''<p>summary</p>'' ''summary'' ''WARNING''
               = Inl (TransportError ''ses'')"
    by (simp add: sendEmailAlert_def)
  show ?thesis
    using sendAlert_failure_leaves_cooldown[of ?cfg 1000 Map.empty "''error-alert''" ?tr
        ?alert "''WARNING''" "TransportError ''ses''" 1000 "Some ''message-id''"]
      quiet sns ses by simp
qed


lemma after_alerts_snoc:
  "after_alerts (calls @ [(c, t)]) = recordAlert t (after_alerts calls) c"
  by (simp add: after_alerts_def)

lemma last_recorded_snoc:
  "last_recorded (calls @ [(c', t)]) c = (if c' = c then Some t else last_recorded calls c)"
  by (simp add: last_recorded_def Let_def)

lemma after_alerts_last_recorded: "after_alerts calls c = last_recorded calls c"
proof (induction calls rule: rev_induct)
  case Nil
  then show ?case by (simp add: after_alerts_def last_recorded_def)
next
  case (snoc call calls)
  obtain c' t where call: "call = (c', t)" by (cases call)
  show ?case
    unfolding call after_alerts_snoc last_recorded_snoc
    using snoc.IH by (simp add: recordAlert_def)
qed

lemma isInCooldown_recorded:
  "isInCooldown cfg now (recordAlert t st c) c \<longleftrightarrow> t \<noteq> 0 \<and> now - t < cooldownMs cfg"
  by (simp add: isInCooldown_def recordAlert_def)

text \<open>
  Claim C6: for every alert category, \<open>isInCooldown\<close> is false when \<open>recordAlert\<close> was
  never called for it; it is true iff the most recent \<open>recordAlert\<close> for it occurred
  strictly less than the cooldown (in minutes) ago; in particular it is true immediately
  after \<open>recordAlert\<close> and false again once the cooldown has elapsed. Clock readings are
  milliseconds since the epoch and are taken to be non-zero, and the configured
  cooldown to be positive.
\<close>

theorem isInCooldown_window:
  "(last_recorded calls c = None \<longrightarrow> \<not> isInCooldown cfg now (after_alerts calls) c)
   \<and> (last_recorded calls c = Some t \<and> t \<noteq> 0 \<longrightarrow>
        (isInCooldown cfg now (after_alerts calls) c \<longleftrightarrow> now - t < alertCooldown cfg * 60 * 1000))
   \<and> (t \<noteq> 0 \<and> 0 < alertCooldown cfg \<longrightarrow> isInCooldown cfg t (recordAlert t st c) c)
   \<and> (t \<noteq> 0 \<and> alertCooldown cfg * 60 * 1000 \<le> now - t \<longrightarrow>
        \<not> isInCooldown cfg now (recordAlert t st c) c)"
proof -
  have a: "\<not> isInCooldown cfg now (after_alerts calls) c" if "last_recorded calls c = None"
    using that by (simp add: isInCooldown_def after_alerts_last_recorded)
  have b: "isInCooldown cfg now (after_alerts calls) c \<longleftrightarrow> now - t < alertCooldown cfg * 60 * 1000"
    if "last_recorded calls c = Some t" "t \<noteq> 0"
    using that by (simp add: isInCooldown_def after_alerts_last_recorded cooldownMs_def)
  have c: "isInCooldown cfg t (recordAlert t st c) c" if "t \<noteq> 0" "0 < alertCooldown cfg"
    using that by (simp add: isInCooldown_recorded cooldownMs_def)
  have d: "\<not> isInCooldown cfg now (recordAlert t st c) c"
    if "t \<noteq> 0" "alertCooldown cfg * 60 * 1000 \<le> now - t"
    using that by (simp add: isInCooldown_recorded cooldownMs_def)
  show ?thesis using a b c d by blast
qed

theorem isInCooldown_window_witness:
  "last_recorded [(''errors'', 1000), (''thresholds'', 2000), (''errors'', 5000)] ''critical'' = None
   \<and> \<not> isInCooldown default_config 6000
         (after_alerts [(''errors'', 1000), (''thresholds'', 2000), (''errors'', 5000)]) ''critical''
   \<and> last_recorded [(''errors'', 1000), (''thresholds'', 2000), (''errors'', 5000)] ''errors''
         = Some 5000
   \<and> (5000::int) \<noteq> 0
   \<and> isInCooldown default_config 6000
         (after_alerts [(''errors'', 1000), (''thresholds'', 2000), (''errors'', 5000)]) ''errors''
   \<and> \<not> isInCooldown default_config 1805000
         (after_alerts [(''errors'', 1000), (''thresholds'', 2000), (''errors'', 5000)]) ''errors''
   \<and> 0 < alertCooldown default_config
   \<and> isInCooldown default_config 5000 (recordAlert 5000 Map.empty ''errors'') ''errors''
   \<and> alertCooldown default_config * 60 * 1000 \<le> 1805000 - 5000
   \<and> \<not> isInCooldown default_config 1805000 (recordAlert 5000 Map.empty ''errors'') ''errors''"
proof -
  let ?calls = "[(''errors'', 1000), (''thresholds'', 2000), (''errors'', 5000::int)]"
  have h: "last_recorded ?calls ''critical'' = None"
    by (simp add: last_recorded_def)
  have h': "last_recorded ?calls ''errors'' = Some 5000"
    by (simp add: last_recorded_def)
  have k: "alertCooldown default_config = 30" by (simp add: default_config_def)
  show ?thesis
    using isInCooldown_window[of ?calls "''critical''" default_config 6000 5000 Map.empty]
      isInCooldown_window[of ?calls "''errors''" default_config 6000 5000 Map.empty]
      isInCooldown_window[of ?calls "''errors''" default_config 1805000 5000 Map.empty]
      h h' k by simp
qed

section \<open>Properties of the classifier\<close>


















lemma search_anywhere:
  "search ic rx p s \<noteq> None \<longleftrightarrow>
     (\<exists>before rest. s = before @ rest
        \<and> exec ic rx (if before = [] then p else Some (last before), rest, None) \<noteq> [])"
proof (induction s arbitrary: p)
  case Nil
  then show ?case by (simp split: list.splits)
next
  case (Cons x xs)
  show ?case
  proof (cases "exec ic rx (p, x # xs, None) = []")
    case False
    then have "search ic rx p (x # xs) \<noteq> None" by (simp split: list.splits)
    moreover have "\<exists>before rest. x # xs = before @ rest
        \<and> exec ic rx (if before = [] then p else Some (last before), rest, None) \<noteq> []"
      using False by (intro exI[of _ "[]"] exI[of _ "x # xs"]) simp
    ultimately show ?thesis by simp
  next
    case True
    then have "search ic rx p (x # xs) \<noteq> None \<longleftrightarrow> search ic rx (Some x) xs \<noteq> None"
      by simp
    also have "\<dots> \<longleftrightarrow> (\<exists>before rest. xs = before @ rest
        \<and> exec ic rx (if before = [] then Some x else Some (last before), rest, None) \<noteq> [])"
      by (rule Cons)
    also have "\<dots> \<longleftrightarrow> (\<exists>before rest. x # xs = before @ rest
        \<and> exec ic rx (if before = [] then p else Some (last before), rest, None) \<noteq> [])"
      (is "?L \<longleftrightarrow> ?R")
    proof
      assume ?L
      then obtain before rest where
        h: "xs = before @ rest"
          "exec ic rx (if before = [] then Some x else Some (last before), rest, None) \<noteq> []"
        by blast
      have "x # xs = (x # before) @ rest" using h(1) by simp
      moreover have "exec ic rx (if x # before = [] then p else Some (last (x # before)), rest, None) \<noteq> []"
        using h(2) by (cases "before = []") simp_all
      ultimately show ?R by blast
    next
      assume ?R
      then obtain before rest where
        h: "x # xs = before @ rest"
          "exec ic rx (if before = [] then p else Some (last before), rest, None) \<noteq> []"
        by blast
      show ?L
      proof (cases before)
        case Nil
        with h True show ?thesis by simp
      next
        case (Cons y ys)
        with h(1) have "xs = ys @ rest" "y = x" by simp_all
        moreover have "exec ic rx (if ys = [] then Some x else Some (last ys), rest, None) \<noteq> []"
          using h(2) Cons \<open>y = x\<close> by (cases "ys = []") simp_all
        ultimately show ?thesis by blast
      qed
    qed
    finally show ?thesis .
  qed
qed

lemma test_anywhere:
  "test re s \<longleftrightarrow>
     (\<exists>before rest. s = before @ rest
        \<and> exec (ignoreCase re) (source re) (char_before before, rest, None) \<noteq> [])"
  unfolding test_def search_anywhere char_before_def by simp

text \<open>
  A literal pattern with the flag \<open>i\<close> matches exactly the texts that contain the
  literal up to the case of ASCII letters.
\<close>

lemma lit_single: "lit [a] = Atom (CSet [a])"
  by (simp add: lit_def)

lemma lit_cons: "lit (a # b # bs) = Seq (Atom (CSet [a])) (lit (b # bs))"
  by (simp add: lit_def)

lemma exec_lit_i:
  assumes "w \<noteq> []"
  shows "exec True (lit w) (p, r, k) \<noteq> [] \<longleftrightarrow>
           length w \<le> length r \<and> map canonicalize (take (length w) r) = map canonicalize w"
  using assms
proof (induction w arbitrary: p r)
  case Nil
  then show ?case by simp
next
  case (Cons a w)
  show ?case
  proof (cases w)
    case Nil
    then show ?thesis by (cases r) (auto simp: lit_single)
  next
    case (Cons b bs)
    show ?thesis
    proof (cases r)
      case Nil
      then show ?thesis by (simp add: Cons lit_cons)
    next
      case (Cons x xs)
      have ne: "w \<noteq> []" using \<open>w = b # bs\<close> by simp
      show ?thesis
        using Cons.IH[OF ne, of "Some x" xs]
        unfolding \<open>r = x # xs\<close> \<open>w = b # bs\<close>
        by (auto simp: lit_cons)
    qed
  qed
qed

lemma test_literal:
  assumes "w \<noteq> []"
  shows "test (regexp_i (lit w)) s \<longleftrightarrow>
           (\<exists>u w' v. s = u @ w' @ v \<and> map canonicalize w' = map canonicalize w)"
proof
  assume "test (regexp_i (lit w)) s"
  then obtain before rest where
    s: "s = before @ rest" and m: "exec True (lit w) (char_before before, rest, None) \<noteq> []"
    unfolding test_anywhere by (auto simp: regexp_i_def)
  from m have "length w \<le> length rest"
    and "map canonicalize (take (length w) rest) = map canonicalize w"
    using exec_lit_i[OF assms] by blast+
  moreover have "s = before @ take (length w) rest @ drop (length w) rest"
    using s by simp
  ultimately show "\<exists>u w' v. s = u @ w' @ v \<and> map canonicalize w' = map canonicalize w"
    by blast
next
  assume "\<exists>u w' v. s = u @ w' @ v \<and> map canonicalize w' = map canonicalize w"
  then obtain u w' v where s: "s = u @ w' @ v"
    and w': "map canonicalize w' = map canonicalize w" by blast
  from w' have len: "length w' = length w" by (metis length_map)
  have "exec True (lit w) (char_before u, w' @ v, None) \<noteq> []"
    using exec_lit_i[OF assms, of "char_before u" "w' @ v" None] len w' by simp
  then show "test (regexp_i (lit w)) s"
    unfolding test_anywhere using s by (auto simp: regexp_i_def)
qed




end
